theory Spec2Isabelle
  imports Complex_Main
begin

section \<open>Movement controller of Perseverance (movement\_pid.py)\<close>

text \<open>
  A Python float is modelled as the real number it stands for (infinities and NaN are
  not represented). Addition, subtraction, multiplication, comparison, \<open>math.cos\<close>
  and \<open>math.sin\<close> are the real operations: the rounding of their results is not
  represented. \<open>math.radians\<close> is modelled with its rounding to a double, because near
  a zero of the cosine that rounding decides whether the cosine is zero at all.
  Exceptions raised by the Python are values of \<open>error\<close>.
\<close>

datatype error = IndexError | ValueError | AttributeError | OSError

subsection \<open>Thrusters\<close>

text \<open>
  The three-element lists \<open>[a, b, c]\<close> given to every \<open>Thruster\<close> are read only at the
  indices 0, 1 and 2; \<open>c0\<close>, \<open>c1\<close>, \<open>c2\<close> are these three components.
\<close>

record vec3 =
  c0 :: real
  c1 :: real
  c2 :: real

definition vec :: "real \<Rightarrow> real \<Rightarrow> real \<Rightarrow> vec3" where
  "vec a b c = \<lparr>c0 = a, c1 = b, c2 = c\<rparr>"

record thruster =
  maestro_id :: nat
  orientation :: vec3
  location :: vec3
  invert :: bool

definition Thruster :: "nat \<Rightarrow> vec3 \<Rightarrow> vec3 \<Rightarrow> bool \<Rightarrow> thruster" where
  "Thruster i ori loc rev_flag =
     \<lparr>maestro_id = i, orientation = ori, location = loc, invert = rev_flag\<rparr>"

text \<open>\<open>self.thrusters\<close> as \<open>Movement_PID.__init__\<close> fills it (indices 0 to 7).\<close>

definition thrusters :: "thruster list" where
  "thrusters =
    [Thruster 1 (vec 0 0 1) (vec 1 (-1) 0) True,
     Thruster 2 (vec 0 1 0) (vec 1 0 0) True,
     Thruster 3 (vec 0 0 1) (vec 1 1 0) False,
     Thruster 4 (vec 1 0 0) (vec 0 1 0) False,
     Thruster 5 (vec 0 0 1) (vec (-1) 1 0) True,
     Thruster 6 (vec 0 1 0) (vec (-1) 0 0) True,
     Thruster 7 (vec 0 0 1) (vec (-1) (-1) 0) False,
     Thruster 8 (vec 1 0 0) (vec 0 (-1) 0) True]"

subsection \<open>State of the movement controller\<close>

text \<open>
  The attributes of \<open>Movement_PID\<close>. The six PID controllers are objects of the class
  \<open>PID_Controller\<close>, which is not part of the sources at hand: their state is a value of
  the type parameter \<open>'p\<close>, and \<open>control_step\<close> is a parameter \<open>cs\<close> of the operations
  that call it, taking the controller state and the error and returning the control
  output and the new controller state.
\<close>

record 'p movement_pid =
  remote_desired_depth :: real
  remote_depth_recorded :: bool
  remote_yaw_min_thrust :: real
  remote_yaw_max_thrust :: real
  remote_x_min_thrust :: real
  remote_x_max_thrust :: real
  remote_y_min_thrust :: real
  remote_y_max_thrust :: real
  roll_min_error :: real
  roll_max_error :: real
  max_roll :: real
  pitch_min_error :: real
  pitch_max_error :: real
  max_pitch :: real
  yaw_min_error :: real
  yaw_max_error :: real
  x_min_error :: real
  x_max_error :: real
  y_min_error :: real
  y_max_error :: real
  z_min_error :: real
  z_max_error :: real
  min_z :: real
  max_z :: real
  z_bias :: real
  z_active_bias_depth :: real
  thruster_strengths :: "real list"
  roll_pid_controller :: 'p
  pitch_pid_controller :: 'p
  yaw_pid_controller :: 'p
  x_pid_controller :: 'p
  y_pid_controller :: 'p
  z_pid_controller :: 'p

type_synonym 'p control_step = "'p \<Rightarrow> real \<Rightarrow> real \<times> 'p"

text \<open>
  A call \<open>self.thrusters[i].set_thrust(v)\<close> is the pair \<open>(i, v)\<close>; an operation that
  commands thrusters returns the list of its calls, in the order it makes them.
\<close>

type_synonym set_thrust_call = "nat \<times> real"

subsection \<open>simple\_thrust\<close>

text \<open>
  \<open>for thruster_id, thrust in enumerate(thrusts): self.thrusters[thruster_id].set_thrust(thrust)\<close>.
  A list longer than \<open>self.thrusters\<close> raises IndexError at index 8, after the first
  eight calls have been made.
\<close>

definition simple_thrust :: "real list \<Rightarrow> set_thrust_call list \<times> error option" where
  "simple_thrust thrusts =
     (take (length thrusters) (enumerate 0 thrusts),
      if length thrusts > length thrusters then Some IndexError else None)"

subsection \<open>controlled\_thrust\<close>

text \<open>The six-term sum computed first in the loop body, for one thruster.\<close>

definition base_thrust ::
  "thruster \<Rightarrow> real \<Rightarrow> real \<Rightarrow> real \<Rightarrow> real \<Rightarrow> real \<Rightarrow> real \<Rightarrow> real" where
  "base_thrust thruster roll_control pitch_control yaw_control x_control y_control z_control =
     (-1 * roll_control * c2 (orientation thruster) * c1 (location thruster)) +
     (pitch_control * c2 (orientation thruster) * c0 (location thruster)) +
     (yaw_control * c1 (orientation thruster) * c0 (location thruster)) +
     (-1 * x_control * c0 (orientation thruster)) +
     (y_control * c1 (orientation thruster)) +
     (z_control * c2 (orientation thruster))"

text \<open>
  The loop body: the value handed to \<open>set_thrust\<close> for the thruster at index
  \<open>thruster_id\<close>.
\<close>

definition thrust_value ::
  "'p movement_pid \<Rightarrow> nat \<Rightarrow> thruster \<Rightarrow> real \<Rightarrow> real \<Rightarrow> real \<Rightarrow> real \<Rightarrow> real \<Rightarrow> real \<Rightarrow> real
     \<Rightarrow> real" where
  "thrust_value self thruster_id thruster roll_control pitch_control yaw_control x_control
       y_control z_control curr_z_pos =
     (let thrust = base_thrust thruster roll_control pitch_control yaw_control x_control
                     y_control z_control;
          thrust = thrust + (thrust * (thruster_strengths self ! thruster_id));
          thrust = (if curr_z_pos \<ge> z_active_bias_depth self
                    then thrust + (z_bias self * c2 (orientation thruster))
                    else thrust)
      in thrust)"

text \<open>
  \<open>self.thruster_strengths[thruster_id]\<close> raises IndexError when the list of strengths
  is shorter than the list of thrusters (\<open>set_up_PID_controllers\<close> always builds it with
  eight entries).
\<close>

definition controlled_thrust ::
  "'p movement_pid \<Rightarrow> real \<Rightarrow> real \<Rightarrow> real \<Rightarrow> real \<Rightarrow> real \<Rightarrow> real \<Rightarrow> real
     \<Rightarrow> error + set_thrust_call list" where
  "controlled_thrust self roll_control pitch_control yaw_control x_control y_control z_control
       curr_z_pos =
     (if length (thruster_strengths self) < length thrusters then Inl IndexError
      else Inr (map (\<lambda>(thruster_id, thruster).
                  (thruster_id,
                   thrust_value self thruster_id thruster roll_control pitch_control
                     yaw_control x_control y_control z_control curr_z_pos))
                (enumerate 0 thrusters)))"

subsection \<open>bound\_error\<close>

definition bound_error :: "real \<Rightarrow> real \<Rightarrow> real \<Rightarrow> real" where
  "bound_error unbounded_error min_error max_error =
     (if unbounded_error < min_error then min_error
      else if unbounded_error > max_error then max_error
      else unbounded_error)"

subsection \<open>Library functions used by the controller\<close>

text \<open>
  \<open>math.copysign(x, y)\<close>: the magnitude of \<open>x\<close> with the sign of \<open>y\<close> (the reals have
  no negative zero).
\<close>

definition copysign :: "real \<Rightarrow> real \<Rightarrow> real" where
  "copysign x y = (if y < 0 then - \<bar>x\<bar> else \<bar>x\<bar>)"

text \<open>
  Rounding of a real to the nearest double (53 significant bits, ties to the even
  significand; overflow and subnormal numbers are not represented).
\<close>

definition round_half_even :: "real \<Rightarrow> int" where
  "round_half_even x =
     (let f = \<lfloor>x\<rfloor>; r = x - of_int f
      in if r < 1 / 2 then f else if r > 1 / 2 then f + 1 else if even f then f else f + 1)"

definition round_double :: "real \<Rightarrow> real" where
  "round_double x =
     (if x = 0 then 0
      else let e = \<lfloor>log 2 \<bar>x\<bar>\<rfloor>; ulp = 2 powr (of_int e - 52)
           in of_int (round_half_even (x / ulp)) * ulp)"

text \<open>
  \<open>math.radians(x)\<close> is the double product \<open>x * degToRad\<close>, where \<open>degToRad\<close> is the
  double \<open>pi / 180.0\<close>, that is \<open>0x1.1df46a2529d39p-6\<close>.
\<close>

definition deg_to_rad :: real where
  "deg_to_rad = 5030569068109113 / 288230376151711744"

definition radians :: "real \<Rightarrow> real" where
  "radians x = round_double (x * deg_to_rad)"

text \<open>
  \<open>numpy.interp(x, [xp0, xp1], [fp0, fp1])\<close> with two sample points: piecewise linear
  between them and constant (\<open>fp0\<close>, \<open>fp1\<close>) outside of \<open>[xp0, xp1]\<close>.
\<close>

definition interp :: "real \<Rightarrow> real \<times> real \<Rightarrow> real \<times> real \<Rightarrow> real" where
  "interp x xp fp =
     (if x \<le> fst xp then fst fp
      else if x \<ge> snd xp then snd fp
      else fst fp + (x - fst xp) * ((snd fp - fst fp) / (snd xp - fst xp)))"

subsection \<open>advance\_move\<close>

text \<open>The yaw error of \<open>advance_move\<close> before it is bounded (shortest angle to travel).\<close>

definition shortest_yaw_error :: "real \<Rightarrow> real \<Rightarrow> real" where
  "shortest_yaw_error desired_yaw curr_yaw =
     (let yaw_error = desired_yaw - curr_yaw
      in if \<bar>yaw_error\<bar> > 180
         then (if yaw_error < 0 then yaw_error + 360 else yaw_error - 360)
         else yaw_error)"

text \<open>
  The errors in x and y relative to the sub, before they are bounded, from the north and
  east errors and the current yaw in degrees.
\<close>

definition body_x_error :: "real \<Rightarrow> real \<Rightarrow> real \<Rightarrow> real" where
  "body_x_error curr_yaw north_error east_error =
     (let yaw_rad = radians curr_yaw
      in (cos yaw_rad * north_error) + (sin yaw_rad * east_error))"

definition body_y_error :: "real \<Rightarrow> real \<Rightarrow> real \<Rightarrow> real" where
  "body_y_error curr_yaw north_error east_error =
     (let yaw_rad = radians curr_yaw
      in (-1 * sin yaw_rad * north_error) + (cos yaw_rad * east_error))"

text \<open>
  The first part of \<open>advance_move\<close>, up to the assignment of \<open>error[5]\<close>: the list
  of the six bounded errors, and \<open>desired_position\<close> as the assignments to its
  elements 0, 1 and 5 leave it.
\<close>

definition advance_move_errors ::
  "'p movement_pid \<Rightarrow> real list \<Rightarrow> real list \<Rightarrow> real list \<times> real list" where
  "advance_move_errors self current_position desired_position =
     (let desired_position =
            (if \<bar>desired_position ! 0\<bar> > max_roll self
             then desired_position[0 := copysign (max_roll self) (desired_position ! 0)]
             else desired_position);
          error0 = bound_error (desired_position ! 0 - current_position ! 0)
                     (roll_min_error self) (roll_max_error self);
          desired_position =
            (if \<bar>desired_position ! 1\<bar> > max_pitch self
             then desired_position[1 := copysign (max_pitch self) (desired_position ! 1)]
             else desired_position);
          error1 = bound_error (desired_position ! 1 - current_position ! 1)
                     (pitch_min_error self) (pitch_max_error self);
          desired_yaw = desired_position ! 2;
          curr_yaw = current_position ! 2;
          error2 = bound_error (shortest_yaw_error desired_yaw curr_yaw)
                     (yaw_min_error self) (yaw_max_error self);
          north_error = desired_position ! 3 - current_position ! 3;
          east_error = desired_position ! 4 - current_position ! 4;
          x_error = body_x_error curr_yaw north_error east_error;
          y_error = body_y_error curr_yaw north_error east_error;
          error3 = bound_error x_error (x_min_error self) (x_max_error self);
          error4 = bound_error y_error (y_min_error self) (y_max_error self);
          desired_position =
            (if desired_position ! 5 < min_z self
             then desired_position[5 := min_z self]
             else if desired_position ! 5 > max_z self
             then desired_position[5 := max_z self]
             else desired_position);
          error5 = bound_error (desired_position ! 5 - current_position ! 5)
                     (z_min_error self) (z_max_error self)
      in ([error0, error1, error2, error3, error4, error5], desired_position))"

text \<open>
  What a call of \<open>advance_move\<close> leaves behind: the returned list of errors, the list
  \<open>desired_position\<close> as the call has mutated it in place, the controller with its six
  PID states advanced, and the calls of \<open>set_thrust\<close>.
\<close>

record 'p advance_move_result =
  am_error :: "real list"
  am_desired_position :: "real list"
  am_self :: "'p movement_pid"
  am_calls :: "set_thrust_call list"

text \<open>
  Both position lists are read at the indices 0 to 5; a shorter list raises IndexError
  (the exception leaves \<open>run\<close>, and what the call did before it is not kept here).
\<close>

definition advance_move ::
  "'p control_step \<Rightarrow> 'p movement_pid \<Rightarrow> real list \<Rightarrow> real list
     \<Rightarrow> error + 'p advance_move_result" where
  "advance_move cs self current_position desired_position =
     (if length current_position < 6 \<or> length desired_position < 6 then Inl IndexError
      else
        let (error, desired_position) =
              advance_move_errors self current_position desired_position;
            (roll_control, roll_pid) = cs (roll_pid_controller self) (error ! 0);
            (pitch_control, pitch_pid) = cs (pitch_pid_controller self) (error ! 1);
            (yaw_control, yaw_pid) = cs (yaw_pid_controller self) (error ! 2);
            (x_control, x_pid) = cs (x_pid_controller self) (error ! 3);
            (y_control, y_pid) = cs (y_pid_controller self) (error ! 4);
            (z_control, z_pid) = cs (z_pid_controller self) (error ! 5);
            self = self\<lparr>roll_pid_controller := roll_pid, pitch_pid_controller := pitch_pid,
                         yaw_pid_controller := yaw_pid, x_pid_controller := x_pid,
                         y_pid_controller := y_pid, z_pid_controller := z_pid\<rparr>
        in case controlled_thrust self roll_control pitch_control yaw_control x_control
                  y_control z_control (current_position ! 5) of
             Inl e \<Rightarrow> Inl e
           | Inr calls \<Rightarrow>
               Inr \<lparr>am_error = error,
                    am_desired_position = desired_position,
                    am_self = self,
                    am_calls = calls\<rparr>)"

subsection \<open>remote\_move\<close>

text \<open>
  The message \<open>[yaw, x, y, depth, hold_depth?, record_waypoint?, zero_position?]\<close> sent by
  the remote control (indices 0 to 6 of \<open>remote_commands\<close>).
\<close>

record remote_command =
  rc_yaw :: real
  rc_x :: real
  rc_y :: real
  rc_depth :: real
  rc_hold_depth :: bool
  rc_record_waypoint :: bool
  rc_zero_position :: bool

text \<open>
  The part of \<open>remote_move\<close> that decides the depth error (the \<open>if\<close> on
  \<open>remote_commands[4]\<close>): the controller with \<open>remote_desired_depth\<close> and
  \<open>remote_depth_recorded\<close> as the branch leaves them, and \<open>depth_error\<close>.
\<close>

definition remote_depth_error ::
  "'p movement_pid \<Rightarrow> real list \<Rightarrow> remote_command \<Rightarrow> 'p movement_pid \<times> real" where
  "remote_depth_error self current_position remote_commands =
     (if rc_hold_depth remote_commands
      then
        let self = (if remote_depth_recorded self = False
                    then self\<lparr>remote_desired_depth := current_position ! 5,
                               remote_depth_recorded := True\<rparr>
                    else self);
            depth_error = bound_error (remote_desired_depth self - current_position ! 5)
                            (z_min_error self) (z_max_error self)
        in (self, depth_error)
      else
        let self = self\<lparr>remote_depth_recorded := False, remote_desired_depth := 0\<rparr>;
            depth_error =
              (if rc_depth remote_commands \<le> 0
               then interp (rc_depth remote_commands) (-1, 0) (z_min_error self, 0)
               else interp (rc_depth remote_commands) (0, 1) (0, z_max_error self))
        in (self, depth_error))"

text \<open>
  The current position is read at the indices 0, 1 and 5; a shorter list raises
  IndexError (the exception leaves \<open>run\<close>, and what the call did before it is not kept
  here).
\<close>

definition remote_move ::
  "'p control_step \<Rightarrow> 'p movement_pid \<Rightarrow> real list \<Rightarrow> remote_command
     \<Rightarrow> error + ('p movement_pid \<times> set_thrust_call list)" where
  "remote_move cs self current_position remote_commands =
     (if length current_position < 6 then Inl IndexError
      else
        let roll_error = bound_error (0 - current_position ! 0)
                           (roll_min_error self) (roll_max_error self);
            pitch_error = bound_error (0 - current_position ! 1)
                            (pitch_min_error self) (pitch_max_error self);
            yaw_control = interp (rc_yaw remote_commands) (-1, 1)
                            (remote_yaw_min_thrust self, remote_yaw_max_thrust self);
            x_control = interp (rc_x remote_commands) (-1, 1)
                          (remote_x_min_thrust self, remote_x_max_thrust self);
            y_control = interp (rc_y remote_commands) (-1, 1)
                          (remote_y_min_thrust self, remote_y_max_thrust self);
            (self, depth_error) = remote_depth_error self current_position remote_commands;
            (roll_control, roll_pid) = cs (roll_pid_controller self) roll_error;
            (pitch_control, pitch_pid) = cs (pitch_pid_controller self) pitch_error;
            (z_control, z_pid) = cs (z_pid_controller self) depth_error;
            self = self\<lparr>roll_pid_controller := roll_pid, pitch_pid_controller := pitch_pid,
                         z_pid_controller := z_pid\<rparr>
        in case controlled_thrust self roll_control pitch_control yaw_control
                  (-1 * x_control) y_control z_control (current_position ! 5) of
             Inl e \<Rightarrow> Inl e
           | Inr calls \<Rightarrow> Inr (self, calls))"

section \<open>Navigation controller (navigation\_controller.py)\<close>

text \<open>
  A row of the waypoint file: \<open>[current_waypoint_number, north_pos, east_pos, depth]\<close>.
\<close>

type_synonym waypoint_row = "nat \<times> real \<times> real \<times> real"

text \<open>The file object held in \<open>self.waypoint_file\<close>: its path and whether it is closed.\<close>

record file_object =
  fo_path :: string
  fo_closed :: bool

text \<open>
  The attributes of \<open>Navigation_Controller\<close> that the control loop and the callbacks read
  or write. \<open>sub_killed\<close> starts as \<open>1\<close> and is compared with \<open>== 1\<close>; the booleans of
  the \<open>KILL_SUB\<close> message are stored as 1 and 0 (Python's \<open>True == 1\<close>).
  \<open>current_waypoint_number\<close> does not exist before the first enable (\<open>None\<close>).
  \<open>waypoint_files\<close> is the content of the files written through the csv writer, by path.
  The initial \<open>remote_commands\<close>, \<open>[0.0, 0.0, 0.0, 0.0, 0]\<close>, has no entries 5 and 6;
  they are read only from a received message.
\<close>

record 'p navigation_controller =
  movement_mode :: int
  sub_killed :: int
  pid_controller :: "'p movement_pid"
  current_position :: "real list"
  pos_error :: "real list"
  desired_position :: "real list"
  remote_commands :: remote_command
  waypoint_file :: "file_object option"
  enable_waypoint_collection :: bool
  current_waypoint_number :: "nat option"
  waypoint_files :: "string \<Rightarrow> waypoint_row list"

text \<open>What the controller does to the outside during a callback or a control tick.\<close>

datatype action =
    Set_Thrust nat real
  | Publish_Zero_Position
  | Close_File string
  | Open_File string
  | Write_Row string waypoint_row

definition thrust_actions :: "set_thrust_call list \<Rightarrow> action list" where
  "thrust_actions calls = map (\<lambda>(thruster_id, thrust). Set_Thrust thruster_id thrust) calls"

subsection \<open>Callbacks\<close>

text \<open>
  The callbacks run in the command listener thread, whose loop catches every exception
  of a callback, prints it and goes on: a callback that raises keeps the assignments
  made before the exception.
\<close>

definition update_sub_killed_state ::
  "'p navigation_controller \<Rightarrow> bool \<Rightarrow> 'p navigation_controller" where
  "update_sub_killed_state self killed_state =
     self\<lparr>sub_killed := (if killed_state then 1 else 0)\<rparr>"

definition update_sensor_data ::
  "'p navigation_controller \<Rightarrow> real list \<Rightarrow> 'p navigation_controller" where
  "update_sensor_data self sensor_data = self\<lparr>current_position := sensor_data\<rparr>"

text \<open>
  \<open>__update_movement_mode_callback\<close> also sets the flags
  \<open>pid_values_update_freeze\<close>, \<open>update_pid_errors\<close>, \<open>remote_hold_depth_state\<close> and
  \<open>remote_control_listen\<close>, which nothing else in the class reads.
\<close>

definition update_movement_mode_callback ::
  "'p navigation_controller \<Rightarrow> int \<Rightarrow> 'p navigation_controller" where
  "update_movement_mode_callback self mode = self\<lparr>movement_mode := mode\<rparr>"

definition unpack_desired_position_callback ::
  "'p navigation_controller \<Rightarrow> real list \<Rightarrow> 'p navigation_controller" where
  "unpack_desired_position_callback self desired = self\<lparr>desired_position := desired\<rparr>"

text \<open>
  \<open>_read_remote_control\<close>. \<open>[north_pos, east_pos, depth] = self.current_position[3:]\<close>
  raises ValueError unless the current position has exactly six entries; without a
  waypoint number or a writer the attribute access raises AttributeError; \<open>writerow\<close>
  raises ValueError on a closed file. The third component of the result is the exception
  that ended the callback, if any.
\<close>

definition read_remote_control ::
  "'p navigation_controller \<Rightarrow> remote_command
     \<Rightarrow> 'p navigation_controller \<times> action list \<times> error option" where
  "read_remote_control self remote =
     (let self = self\<lparr>remote_commands := remote\<rparr>;
          zero = (if rc_zero_position remote then [Publish_Zero_Position] else [])
      in if enable_waypoint_collection self \<and> rc_record_waypoint remote
         then (if length (current_position self) \<noteq> 6 then (self, [], Some ValueError)
               else
                 let north_pos = current_position self ! 3;
                     east_pos = current_position self ! 4;
                     depth = current_position self ! 5
                 in case (current_waypoint_number self, waypoint_file self) of
                      (Some n, Some f) \<Rightarrow>
                        if fo_closed f then (self, [], Some ValueError)
                        else
                          (self\<lparr>waypoint_files := (waypoint_files self)
                                   (fo_path f := waypoint_files self (fo_path f) @
                                                   [(n, north_pos, east_pos, depth)]),
                                 current_waypoint_number := Some (n + 1)\<rparr>,
                           Write_Row (fo_path f) (n, north_pos, east_pos, depth) # zero,
                           None)
                    | _ \<Rightarrow> (self, [], Some AttributeError))
         else (self, zero, None))"

text \<open>
  \<open>__update_enable_waypoint_collection\<close>; \<open>waypoint_file_param\<close> is the value that the
  parameter server returns for \<open>Missions/waypoint_collect_file\<close>, and \<open>opened\<close> is what
  \<open>open(waypoint_file, 'w')\<close> does with it: \<open>None\<close> when it returns the file (which
  it has emptied), \<open>Some e\<close> when it raises \<open>e\<close>, as for a path that cannot be opened.
  Both branches first close the file held so far. When \<open>open\<close> raises, the callback ends
  there: collection is enabled, the old file is closed, and the writer and the waypoint
  number are as they were. The third component of the result is the exception that
  ended the callback, if any.
\<close>

definition update_enable_waypoint_collection ::
  "'p navigation_controller \<Rightarrow> bool \<Rightarrow> string \<Rightarrow> error option
     \<Rightarrow> 'p navigation_controller \<times> action list \<times> error option" where
  "update_enable_waypoint_collection self enable waypoint_file_param opened =
     (let self = self\<lparr>enable_waypoint_collection := enable\<rparr>;
          closing = (case waypoint_file self of
                       None \<Rightarrow> []
                     | Some f \<Rightarrow> [Close_File (fo_path f)]);
          self = self\<lparr>waypoint_file :=
                         map_option (\<lambda>f. f\<lparr>fo_closed := True\<rparr>) (waypoint_file self)\<rparr>
      in if enable_waypoint_collection self
         then (case opened of
                 Some e \<Rightarrow> (self, closing, Some e)
               | None \<Rightarrow>
                   (self\<lparr>waypoint_file :=
                             Some \<lparr>fo_path = waypoint_file_param, fo_closed = False\<rparr>,
                          waypoint_files := (waypoint_files self)(waypoint_file_param := []),
                          current_waypoint_number := Some 0\<rparr>,
                    closing @ [Open_File waypoint_file_param], None))
         else (self, closing, None))"

definition update_thruster_test_callback ::
  "'p navigation_controller \<Rightarrow> real list
     \<Rightarrow> 'p navigation_controller \<times> action list \<times> error option" where
  "update_thruster_test_callback self thrusts =
     (self, thrust_actions (fst (simple_thrust thrusts)), snd (simple_thrust thrusts))"

subsection \<open>The control loop\<close>

text \<open>
  One iteration of the loop of \<open>run\<close>, after the wait for the next time slot. An
  exception of the movement controller leaves \<open>run\<close>.
\<close>

definition run_tick ::
  "'p control_step \<Rightarrow> 'p navigation_controller
     \<Rightarrow> error + ('p navigation_controller \<times> action list)" where
  "run_tick cs self =
     (if sub_killed self = 1
      then Inr (self, thrust_actions (fst (simple_thrust [0, 0, 0, 0, 0, 0, 0, 0])))
      else if movement_mode self = 0
      then (case advance_move cs (pid_controller self) (current_position self)
                   (desired_position self) of
              Inl e \<Rightarrow> Inl e
            | Inr r \<Rightarrow>
                Inr (self\<lparr>pos_error := am_error r,
                           desired_position := am_desired_position r,
                           pid_controller := am_self r\<rparr>,
                     thrust_actions (am_calls r)))
      else if movement_mode self = 1
      then Inr (self, [])
      else if movement_mode self = 2
      then (case remote_move cs (pid_controller self) (current_position self)
                   (remote_commands self) of
              Inl e \<Rightarrow> Inl e
            | Inr (pid, calls) \<Rightarrow> Inr (self\<lparr>pid_controller := pid\<rparr>, thrust_actions calls))
      else if movement_mode self = 3
      then (case advance_move cs (pid_controller self) (current_position self)
                   (desired_position self) of
              Inl e \<Rightarrow> Inl e
            | Inr r \<Rightarrow>
                Inr (self\<lparr>desired_position := am_desired_position r,
                           pid_controller := am_self r\<rparr>,
                     thrust_actions (am_calls r)))
      else Inr (self, []))"

subsection \<open>Interleaving of messages and control ticks\<close>

text \<open>
  The messages that the callbacks above receive, and the control tick. (The message
  \<open>UPDATE_PID_CONFIGS\<close>, which reloads the parameters of the movement controller from
  the parameter server, is not among them.) The message that enables or disables the
  waypoint collection is paired with what the parameter server and \<open>open\<close> answer
  during its callback.
\<close>

datatype event =
    KILL_SUB bool
  | SENSOR_DATA "real list"
  | MOVEMENT_MODE int
  | DESIRED_POSITION "real list"
  | REMOTE_CONTROL_COMMAND remote_command
  | ENABLE_WAYPOINT_COLLECTION bool string "error option"
  | THRUSTS "real list"
  | Control_Tick

fun step ::
  "'p control_step \<Rightarrow> 'p navigation_controller \<Rightarrow> event
     \<Rightarrow> error + ('p navigation_controller \<times> action list)" where
  "step cs self (KILL_SUB b) = Inr (update_sub_killed_state self b, [])"
| "step cs self (SENSOR_DATA d) = Inr (update_sensor_data self d, [])"
| "step cs self (MOVEMENT_MODE m) = Inr (update_movement_mode_callback self m, [])"
| "step cs self (DESIRED_POSITION d) = Inr (unpack_desired_position_callback self d, [])"
| "step cs self (REMOTE_CONTROL_COMMAND r) =
     (let (self', acts, caught) = read_remote_control self r in Inr (self', acts))"
| "step cs self (ENABLE_WAYPOINT_COLLECTION b p opened) =
     (let (self', acts, caught) = update_enable_waypoint_collection self b p opened
      in Inr (self', acts))"
| "step cs self (THRUSTS t) =
     (let (self', acts, caught) = update_thruster_test_callback self t in Inr (self', acts))"
| "step cs self Control_Tick = run_tick cs self"

fun steps ::
  "'p control_step \<Rightarrow> 'p navigation_controller \<Rightarrow> event list
     \<Rightarrow> error + ('p navigation_controller \<times> action list)" where
  "steps cs self [] = Inr (self, [])"
| "steps cs self (e # es) =
     (case step cs self e of
        Inl err \<Rightarrow> Inl err
      | Inr (self', acts) \<Rightarrow>
          (case steps cs self' es of
             Inl err \<Rightarrow> Inl err
           | Inr (self'', acts') \<Rightarrow> Inr (self'', acts @ acts')))"


text \<open>
  Successive calls of \<open>remote_move\<close> on the same controller, as the control loop makes
  them in remote control mode: each call is given the current position and the remote
  commands of its tick.
\<close>

fun remote_moves ::
  "'p control_step \<Rightarrow> 'p movement_pid \<Rightarrow> (real list \<times> remote_command) list
     \<Rightarrow> error + 'p movement_pid" where
  "remote_moves cs self [] = Inr self"
| "remote_moves cs self ((position, remote) # rest) =
     (case remote_move cs self position remote of
        Inl e \<Rightarrow> Inl e
      | Inr (self', calls) \<Rightarrow> remote_moves cs self' rest)"

section \<open>A configuration to run the model on\<close>

text \<open>
  A proportional controller stands in for \<open>PID_Controller\<close>: its state is its gain.
\<close>

definition example_control_step :: "real control_step" where
  "example_control_step gain err = (gain * err, gain)"

definition example_movement_pid :: "real movement_pid" where
  "example_movement_pid =
     \<lparr>remote_desired_depth = 0, remote_depth_recorded = False,
      remote_yaw_min_thrust = -20, remote_yaw_max_thrust = 20,
      remote_x_min_thrust = -30, remote_x_max_thrust = 30,
      remote_y_min_thrust = -30, remote_y_max_thrust = 30,
      roll_min_error = -10, roll_max_error = 10, max_roll = 30,
      pitch_min_error = -10, pitch_max_error = 10, max_pitch = 30,
      yaw_min_error = -30, yaw_max_error = 30,
      x_min_error = -5, x_max_error = 5,
      y_min_error = -5, y_max_error = 5,
      z_min_error = -2, z_max_error = 4, min_z = 0, max_z = 20,
      z_bias = 5, z_active_bias_depth = 10,
      thruster_strengths = [1, 0, 0, 0, 0, 0, 0, 0],
      roll_pid_controller = 1, pitch_pid_controller = 1, yaw_pid_controller = 1,
      x_pid_controller = 1, y_pid_controller = 1, z_pid_controller = 2\<rparr>"

definition example_remote_command :: remote_command where
  "example_remote_command =
     \<lparr>rc_yaw = 0, rc_x = 0, rc_y = 0, rc_depth = 0, rc_hold_depth = False,
      rc_record_waypoint = False, rc_zero_position = False\<rparr>"

text \<open>The navigation controller as \<open>__init__\<close> leaves it: killed, in mode 0.\<close>

definition example_navigation_controller :: "real navigation_controller" where
  "example_navigation_controller =
     \<lparr>movement_mode = 0, sub_killed = 1, pid_controller = example_movement_pid,
      current_position = [0, 0, 0, 0, 0, 0], pos_error = [0, 0, 0, 0, 0, 0],
      desired_position = [0, 0, 0, 0, 0, 0], remote_commands = example_remote_command,
      waypoint_file = None, enable_waypoint_collection = False,
      current_waypoint_number = None, waypoint_files = (\<lambda>path. [])\<rparr>"

section \<open>Verified properties\<close>

subsection \<open>Facts about the thruster table\<close>

lemma enumerate_thrusters:
  "enumerate 0 thrusters = zip [0, 1, 2, 3, 4, 5, 6, 7] thrusters"
  by (simp add: thrusters_def)

lemma length_thrusters: "length thrusters = 8"
  by (simp add: thrusters_def)



subsection \<open>bound\_error\<close>

text \<open>
  C8. \<open>bound_error\<close> is a clamp: it returns \<open>min_error\<close> below \<open>min_error\<close>,
  \<open>max_error\<close> above \<open>max_error\<close>, and its argument otherwise; when
  \<open>min_error \<le> max_error\<close> the result lies between the two, and an argument between
  the two is returned unchanged.
\<close>

theorem bound_error_clamp:
  "bound_error raw lo hi = (if raw < lo then lo else if raw > hi then hi else raw)
   \<and> (lo \<le> hi \<longrightarrow> lo \<le> bound_error raw lo hi \<and> bound_error raw lo hi \<le> hi)
   \<and> (lo \<le> raw \<and> raw \<le> hi \<longrightarrow> bound_error raw lo hi = raw)"
  by (simp add: bound_error_def)

theorem bound_error_clamp_witness:
  "(0::real) \<le> 10 \<and> (0::real) \<le> 5 \<and> (5::real) \<le> 10
   \<and> bound_error 5 0 10 = 5 \<and> 0 \<le> bound_error 5 0 10 \<and> bound_error 5 0 10 \<le> 10"
  using bound_error_clamp [of 5 0 10] by simp

subsection \<open>controlled\_thrust\<close>

text \<open>
  C2. With a strength for each of the eight thrusters, \<open>controlled_thrust\<close> calls
  \<open>set_thrust\<close> once per thruster, in order, with the six-term allocation of that
  thruster multiplied by one plus its strength, to which the bias times the z
  orientation is added (unscaled) exactly when the current depth is at least the
  activation depth.
\<close>

theorem controlled_thrust_allocation:
  assumes "length (thruster_strengths self) \<ge> 8"
  shows "controlled_thrust self roll_c pitch_c yaw_c x_c y_c z_c current_depth =
     Inr (map (\<lambda>i. (i,
            ((- roll_c * c2 (orientation (thrusters ! i)) * c1 (location (thrusters ! i)))
             + (pitch_c * c2 (orientation (thrusters ! i)) * c0 (location (thrusters ! i)))
             + (yaw_c * c1 (orientation (thrusters ! i)) * c0 (location (thrusters ! i)))
             + (- x_c * c0 (orientation (thrusters ! i)))
             + (y_c * c1 (orientation (thrusters ! i)))
             + (z_c * c2 (orientation (thrusters ! i))))
            * (1 + thruster_strengths self ! i)
            + (if current_depth \<ge> z_active_bias_depth self
               then z_bias self * c2 (orientation (thrusters ! i)) else 0)))
          [0, 1, 2, 3, 4, 5, 6, 7])"
  using assms
  apply (simp add: controlled_thrust_def length_thrusters enumerate_thrusters)
  apply (simp add: thrusters_def thrust_value_def base_thrust_def Thruster_def vec_def Let_def
      algebra_simps)
  done

theorem controlled_thrust_allocation_witness:
  "length (thruster_strengths example_movement_pid) \<ge> 8
   \<and> controlled_thrust example_movement_pid 1 2 3 4 5 6 10 =
       Inr [(0, 23), (1, 8), (2, 12), (3, -4), (4, 8), (5, 2), (6, 10), (7, -4)]"
  using controlled_thrust_allocation [of example_movement_pid 1 2 3 4 5 6 10]
  by (simp add: example_movement_pid_def thrusters_def Thruster_def vec_def)

lemma below_8: "i < 8 \<Longrightarrow> i \<in> {0, 1, 2, 3, 4, 5, 6, 7::nat}"
  by auto

lemma controlled_thrust_nth:
  assumes "controlled_thrust self rc pc yc xc yyc zc d = Inr calls" and "i < 8"
  shows "calls ! i = (i, thrust_value self i (thrusters ! i) rc pc yc xc yyc zc d)"
proof -
  have "calls = map (\<lambda>(thruster_id, thruster).
                  (thruster_id, thrust_value self thruster_id thruster rc pc yc xc yyc zc d))
                (enumerate 0 thrusters)"
    using assms(1) by (simp add: controlled_thrust_def split: if_splits)
  then show ?thesis
    using assms(2) by (simp add: length_thrusters nth_enumerate_eq)
qed

lemma example_calls:
  "controlled_thrust example_movement_pid 1 2 3 4 5 6 10 =
       Inr [(0, 23), (1, 8), (2, 12), (3, -4), (4, 8), (5, 2), (6, 10), (7, -4)]"
  "controlled_thrust example_movement_pid 1 2 0 4 5 6 10 =
       Inr [(0, 23), (1, 5), (2, 12), (3, -4), (4, 8), (5, 5), (6, 10), (7, -4)]"
  by (simp_all add: controlled_thrust_def enumerate_thrusters length_thrusters
      example_movement_pid_def thrusters_def thrust_value_def base_thrust_def Thruster_def vec_def)

text \<open>
  C3. In the thruster table of \<open>__init__\<close> the yaw term \<open>orientation[1] * location[0]\<close>
  is nonzero for the thrusters with ids 2 and 6 only. Changing the yaw control alone
  leaves the value commanded to each of the other six thrusters unchanged, whatever the
  other controls, the depth and the configuration are; the values commanded to
  thrusters 2 and 6 change by the change of the yaw control (with opposite signs),
  scaled by one plus the thruster's strength.
\<close>

theorem yaw_control_only_thrusters_2_and_6:
  assumes "controlled_thrust self roll_c pitch_c yaw_c x_c y_c z_c depth = Inr calls"
    and "controlled_thrust self roll_c pitch_c yaw_c' x_c y_c z_c depth = Inr calls'"
    and "i < 8"
  shows "(c1 (orientation (thrusters ! i)) * c0 (location (thrusters ! i)) \<noteq> 0
            \<longleftrightarrow> maestro_id (thrusters ! i) \<in> {2, 6})
       \<and> (maestro_id (thrusters ! i) \<notin> {2, 6} \<longrightarrow> calls ! i = calls' ! i)
       \<and> (maestro_id (thrusters ! i) = 2 \<longrightarrow>
            snd (calls ! i) - snd (calls' ! i)
              = (yaw_c - yaw_c') * (1 + thruster_strengths self ! i))
       \<and> (maestro_id (thrusters ! i) = 6 \<longrightarrow>
            snd (calls ! i) - snd (calls' ! i)
              = - (yaw_c - yaw_c') * (1 + thruster_strengths self ! i))"
proof -
  note nth = controlled_thrust_nth [OF assms(1) assms(3)]
    controlled_thrust_nth [OF assms(2) assms(3)]
  from below_8 [OF assms(3)] show ?thesis
    unfolding nth
    by (auto simp add: thrusters_def thrust_value_def base_thrust_def Thruster_def vec_def
        Let_def algebra_simps)
qed

theorem yaw_control_only_thrusters_2_and_6_witness:
  "controlled_thrust example_movement_pid 1 2 3 4 5 6 10 =
       Inr [(0, 23), (1, 8), (2, 12), (3, -4), (4, 8), (5, 2), (6, 10), (7, -4)]
   \<and> controlled_thrust example_movement_pid 1 2 0 4 5 6 10 =
       Inr [(0, 23), (1, 5), (2, 12), (3, -4), (4, 8), (5, 5), (6, 10), (7, -4)]
   \<and> maestro_id (thrusters ! 0) \<notin> {2, 6}
   \<and> projr (controlled_thrust example_movement_pid 1 2 3 4 5 6 10) ! 0
       = projr (controlled_thrust example_movement_pid 1 2 0 4 5 6 10) ! 0
   \<and> maestro_id (thrusters ! 1) = 2
   \<and> snd (projr (controlled_thrust example_movement_pid 1 2 3 4 5 6 10) ! 1)
         - snd (projr (controlled_thrust example_movement_pid 1 2 0 4 5 6 10) ! 1) = 3
   \<and> maestro_id (thrusters ! 5) = 6
   \<and> snd (projr (controlled_thrust example_movement_pid 1 2 3 4 5 6 10) ! 5)
         - snd (projr (controlled_thrust example_movement_pid 1 2 0 4 5 6 10) ! 5) = - 3"
  using yaw_control_only_thrusters_2_and_6 [OF example_calls, of 0]
    yaw_control_only_thrusters_2_and_6 [OF example_calls, of 1]
    yaw_control_only_thrusters_2_and_6 [OF example_calls, of 5]
  by (simp add: example_calls thrusters_def Thruster_def vec_def)

subsection \<open>advance\_move\<close>

lemma advance_move_Inr:
  assumes "advance_move cs self cur des = Inr r"
  shows "6 \<le> length cur" and "6 \<le> length des"
    and "am_error r = fst (advance_move_errors self cur des)"
    and "am_desired_position r = snd (advance_move_errors self cur des)"
  using assms
  by (auto simp add: advance_move_def Let_def case_prod_beta split: if_splits sum.splits)

lemma if_list_update:
  "(if c then xs[i := v] else xs) = xs[i := (if c then v else xs ! i)]"
  "(if c then xs[i := v] else xs[i := w]) = xs[i := (if c then v else w)]"
  by simp_all

lemma advance_move_errors_desired:
  assumes "6 \<le> length des"
  shows "snd (advance_move_errors self cur des) =
           des[0 := (if \<bar>des ! 0\<bar> > max_roll self then copysign (max_roll self) (des ! 0) else des ! 0),
               1 := (if \<bar>des ! 1\<bar> > max_pitch self then copysign (max_pitch self) (des ! 1) else des ! 1),
               5 := (if des ! 5 < min_z self then min_z self
                     else if des ! 5 > max_z self then max_z self else des ! 5)]"
  using assms
  by (simp add: advance_move_errors_def Let_def if_list_update split del: if_split cong: if_cong)

lemma advance_move_errors_yaw_xy:
  assumes "6 \<le> length des"
  shows "fst (advance_move_errors self cur des) ! 2 =
           bound_error (shortest_yaw_error (des ! 2) (cur ! 2)) (yaw_min_error self) (yaw_max_error self)"
    and "fst (advance_move_errors self cur des) ! 3 =
           bound_error (body_x_error (cur ! 2) (des ! 3 - cur ! 3) (des ! 4 - cur ! 4))
             (x_min_error self) (x_max_error self)"
    and "fst (advance_move_errors self cur des) ! 4 =
           bound_error (body_y_error (cur ! 2) (des ! 3 - cur ! 3) (des ! 4 - cur ! 4))
             (y_min_error self) (y_max_error self)"
  using assms
  by (simp_all add: advance_move_errors_def Let_def if_list_update split del: if_split cong: if_cong)

lemma cos_Maclaurin_bound:
  "\<bar>cos x - (\<Sum>m<n. cos_coeff m * x ^ m)\<bar> \<le> \<bar>x\<bar> ^ n / fact n" for x :: real
proof -
  obtain t where "cos x = (\<Sum>m<n. cos_coeff m * x ^ m) + (cos (t + 1/2 * real n * pi) / fact n) * x ^ n"
    using Maclaurin_cos_expansion [of x n] by blast
  then have "\<bar>cos x - (\<Sum>m<n. cos_coeff m * x ^ m)\<bar> = \<bar>cos (t + 1/2 * real n * pi)\<bar> * (\<bar>x\<bar> ^ n / fact n)"
    by (simp add: abs_mult power_abs)
  also have "\<dots> \<le> 1 * (\<bar>x\<bar> ^ n / fact n)"
    by (rule mult_right_mono) simp_all
  finally show ?thesis by simp
qed

lemma sum_as_list: "(\<Sum>m<n. f m) = sum_list (map f [0..<n])" for f :: "nat \<Rightarrow> real"
  by (simp only: interv_sum_list_conv_sum_set_nat set_upt atLeast0LessThan)

lemma upt_24:
  "[0..<24] = [0, 1, 2, 3, 4, 5, 6, 7, 8, 9, 10, 11, 12, 13, 14, 15, 16, 17, 18, 19, 20, 21,
     22, 23 :: nat]"
  by code_simp

lemma cos_sum_24:
  "(\<Sum>m<24. cos_coeff m * x ^ m) =
     1 - x^2 / 2 + x^4 / fact 4 - x^6 / fact 6 + x^8 / fact 8 - x^10 / fact 10
       + x^12 / fact 12 - x^14 / fact 14 + x^16 / fact 16 - x^18 / fact 18 + x^20 / fact 20
       - x^22 / fact 22" for x :: real
  unfolding sum_as_list upt_24
  by (simp add: cos_coeff_def del: fact_numeral)

lemma cos_poly_at_double_half_pi:
  "61 / 10 ^ 18 <
     (1 - x^2 / 2 + x^4 / fact 4 - x^6 / fact 6 + x^8 / fact 8 - x^10 / fact 10
       + x^12 / fact 12 - x^14 / fact 14 + x^16 / fact 16 - x^18 / fact 18 + x^20 / fact 20
       - x^22 / fact 22) - \<bar>x\<bar> ^ 24 / fact 24"
  "(1 - x^2 / 2 + x^4 / fact 4 - x^6 / fact 6 + x^8 / fact 8 - x^10 / fact 10
       + x^12 / fact 12 - x^14 / fact 14 + x^16 / fact 16 - x^18 / fact 18 + x^20 / fact 20
       - x^22 / fact 22) + \<bar>x\<bar> ^ 24 / fact 24 < 62 / 10 ^ 18"
  if "x = 884279719003555 / 562949953421312" for x :: real
  unfolding that by (simp_all add: power_divide fact_numeral)

lemma cos_double_half_pi:
  "61 / 10 ^ 18 < cos (884279719003555 / 562949953421312 :: real)"
  "cos (884279719003555 / 562949953421312 :: real) < 62 / 10 ^ 18"
  using cos_Maclaurin_bound [of "884279719003555 / 562949953421312" 24]
    cos_poly_at_double_half_pi [OF refl]
  unfolding cos_sum_24 by linarith+

lemma floor_log2_unit: "1 \<le> x \<Longrightarrow> x < 2 \<Longrightarrow> \<lfloor>log 2 x\<rfloor> = 0" for x :: real
  by (rule floor_unique) (simp_all add: less_log_iff log_less_iff zero_le_log_cancel_iff)

lemma radians_0: "radians 0 = 0"
  by (simp add: radians_def round_double_def)

lemma round_double_unit:
  assumes "1 \<le> x" and "x < 2"
  shows "round_double x = of_int (round_half_even (x * 4503599627370496)) / 4503599627370496"
proof -
  have e: "\<lfloor>log 2 \<bar>x\<bar>\<rfloor> = 0"
    using floor_log2_unit [of "\<bar>x\<bar>"] assms by simp
  have u: "(2::real) powr (- 52) = 1 / 4503599627370496"
    by (simp add: powr_minus powr_numeral inverse_eq_divide)
  from assms have "x \<noteq> 0" by simp
  then show ?thesis
    by (simp add: round_double_def e u Let_def)
qed

lemma radians_90: "radians 90 = 884279719003555 / 562949953421312"
proof -
  have x: "(90::real) * deg_to_rad = 226375608064910085 / 144115188075855872"
    by (simp add: deg_to_rad_def)
  have m: "(226375608064910085 / 144115188075855872 :: real) * 4503599627370496
             = 7074237752028440 + 5 / 32"
    by simp
  have f: "\<lfloor>7074237752028440 + 5 / 32 :: real\<rfloor> = 7074237752028440"
    by (rule floor_unique) simp_all
  have r: "round_half_even (7074237752028440 + 5 / 32) = 7074237752028440"
    by (simp add: round_half_even_def f Let_def)
  have "round_double (226375608064910085 / 144115188075855872)
          = of_int (round_half_even ((226375608064910085 / 144115188075855872) * 4503599627370496))
              / 4503599627370496"
    by (rule round_double_unit) simp_all
  also have "\<dots> = 884279719003555 / 562949953421312"
    unfolding m r by simp
  finally show ?thesis
    unfolding radians_def x .
qed

lemma sin_double_half_pi:
  "1 - 4 / 10 ^ 33 < sin (884279719003555 / 562949953421312 :: real)"
  "sin (884279719003555 / 562949953421312 :: real) \<le> 1"
proof -
  let ?d = "884279719003555 / 562949953421312 :: real"
  have "?d < 2" by simp
  also have "2 \<le> pi" by (rule pi_ge_two)
  finally have "0 < sin ?d" by (intro sin_gt_zero) simp_all
  moreover have "sin ?d \<le> 1" by simp
  ultimately have a: "(sin ?d)\<^sup>2 \<le> sin ?d"
    by (simp add: power2_eq_square mult_left_le)
  have b: "(sin ?d)\<^sup>2 = 1 - (cos ?d)\<^sup>2"
    by (rule sin_squared_eq)
  have "(cos ?d)\<^sup>2 < (62 / 10 ^ 18)\<^sup>2"
    using cos_double_half_pi by (intro power_strict_mono) simp_all
  also have "(62 / 10 ^ 18 :: real)\<^sup>2 < 4 / 10 ^ 33"
    by (simp add: power2_eq_square)
  finally have c: "(cos ?d)\<^sup>2 < 4 / 10 ^ 33" .
  from a b c show "1 - 4 / 10 ^ 33 < sin ?d" by linarith
  show "sin ?d \<le> 1" by simp
qed

lemma body_error_0:
  "body_x_error 0 north_error east_error = north_error"
  "body_y_error 0 north_error east_error = east_error"
  by (simp_all add: body_x_error_def body_y_error_def radians_0)

lemma body_error_zero:
  "body_x_error curr_yaw 0 0 = 0"
  "body_y_error curr_yaw 0 0 = 0"
  by (simp_all add: body_x_error_def body_y_error_def)

lemma body_error_90:
  "\<bar>body_x_error 90 north_error east_error - east_error\<bar>
     \<le> (\<bar>north_error\<bar> + \<bar>east_error\<bar>) / 10 ^ 15"
  "\<bar>body_y_error 90 north_error east_error - (- north_error)\<bar>
     \<le> (\<bar>north_error\<bar> + \<bar>east_error\<bar>) / 10 ^ 15"
proof -
  let ?d = "884279719003555 / 562949953421312 :: real"
  define c where "c = cos ?d"
  define t where "t = 1 - sin ?d"
  have c: "0 \<le> c" "c \<le> 1 / 10 ^ 15"
    using cos_double_half_pi by (simp_all add: c_def)
  have t: "0 \<le> t" "t \<le> 1 / 10 ^ 15"
    using sin_double_half_pi by (simp_all add: t_def)
  have x: "body_x_error 90 north_error east_error - east_error
             = c * north_error - t * east_error"
    by (simp add: body_x_error_def radians_90 c_def t_def Let_def algebra_simps)
  have y: "body_y_error 90 north_error east_error - (- north_error)
             = t * north_error + c * east_error"
    by (simp add: body_y_error_def radians_90 c_def t_def Let_def algebra_simps)
  have cn: "\<bar>c * north_error\<bar> \<le> \<bar>north_error\<bar> / 10 ^ 15"
    and ce: "\<bar>c * east_error\<bar> \<le> \<bar>east_error\<bar> / 10 ^ 15"
    and tn: "\<bar>t * north_error\<bar> \<le> \<bar>north_error\<bar> / 10 ^ 15"
    and te: "\<bar>t * east_error\<bar> \<le> \<bar>east_error\<bar> / 10 ^ 15"
    using c t mult_right_mono [of c "1 / 10 ^ 15" "\<bar>north_error\<bar>"]
      mult_right_mono [of c "1 / 10 ^ 15" "\<bar>east_error\<bar>"]
      mult_right_mono [of t "1 / 10 ^ 15" "\<bar>north_error\<bar>"]
      mult_right_mono [of t "1 / 10 ^ 15" "\<bar>east_error\<bar>"]
    by (simp_all add: abs_mult)
  show "\<bar>body_x_error 90 north_error east_error - east_error\<bar>
     \<le> (\<bar>north_error\<bar> + \<bar>east_error\<bar>) / 10 ^ 15"
    unfolding x using cn te by (simp add: add_divide_distrib; linarith)
  show "\<bar>body_y_error 90 north_error east_error - (- north_error)\<bar>
     \<le> (\<bar>north_error\<bar> + \<bar>east_error\<bar>) / 10 ^ 15"
    unfolding y using tn ce by (simp add: add_divide_distrib; linarith)
qed

lemma body_x_error_90_5_0:
  "0 < body_x_error 90 5 0" "body_x_error 90 5 0 < 5"
  using cos_double_half_pi by (simp_all add: body_x_error_def radians_90 Let_def)


lemma example_advance_move_errors:
  "advance_move_errors example_movement_pid [0, 0, -170, 0, 0, 0] [0, 0, 170, 0, 0, 0]
     = ([0, 0, -20, 0, 0, 0], [0, 0, 170, 0, 0, 0])"
  "advance_move_errors example_movement_pid [0, 0, 0, 0, 0, 0] [0, 0, 0, 3, 4, 0]
     = ([0, 0, 0, 3, 4, 0], [0, 0, 0, 3, 4, 0])"
  "advance_move_errors example_movement_pid [0, 0, 0, 0, 0, 0] [40, -50, 0, 0, 0, 25]
     = ([10, -10, 0, 0, 0, 4], [30, -30, 0, 0, 0, 20])"
  by (simp_all add: advance_move_errors_def example_movement_pid_def bound_error_def
      shortest_yaw_error_def body_error_0 body_error_zero copysign_def Let_def)

lemma example_controlled_thrust:
  "controlled_thrust example_movement_pid 0 0 (-20) 0 0 0 0 =
     Inr [(0, 0), (1, -20), (2, 0), (3, 0), (4, 0), (5, 20), (6, 0), (7, 0)]"
  "controlled_thrust example_movement_pid 0 0 0 3 4 0 0 =
     Inr [(0, 0), (1, 4), (2, 0), (3, -3), (4, 0), (5, 4), (6, 0), (7, -3)]"
  "controlled_thrust example_movement_pid 10 (-10) 0 0 0 8 0 =
     Inr [(0, 16), (1, 0), (2, -12), (3, 0), (4, 8), (5, 0), (6, 28), (7, 0)]"
  by (simp_all add: controlled_thrust_def enumerate_thrusters length_thrusters
      example_movement_pid_def thrusters_def thrust_value_def base_thrust_def Thruster_def vec_def)

lemma example_pid_update:
  "example_movement_pid\<lparr>roll_pid_controller := 1, pitch_pid_controller := 1,
      yaw_pid_controller := 1, x_pid_controller := 1, y_pid_controller := 1,
      z_pid_controller := 2\<rparr> = example_movement_pid"
  by (simp add: example_movement_pid_def)

lemma example_pid_fields:
  "roll_pid_controller example_movement_pid = 1"
  "pitch_pid_controller example_movement_pid = 1"
  "yaw_pid_controller example_movement_pid = 1"
  "x_pid_controller example_movement_pid = 1"
  "y_pid_controller example_movement_pid = 1"
  "z_pid_controller example_movement_pid = 2"
  by (simp_all add: example_movement_pid_def)

lemma example_advance_move:
  "advance_move example_control_step example_movement_pid
       [0, 0, -170, 0, 0, 0] [0, 0, 170, 0, 0, 0] =
     Inr \<lparr>am_error = [0, 0, -20, 0, 0, 0], am_desired_position = [0, 0, 170, 0, 0, 0],
          am_self = example_movement_pid,
          am_calls = [(0, 0), (1, -20), (2, 0), (3, 0), (4, 0), (5, 20), (6, 0), (7, 0)]\<rparr>"
  "advance_move example_control_step example_movement_pid
       [0, 0, 0, 0, 0, 0] [0, 0, 0, 3, 4, 0] =
     Inr \<lparr>am_error = [0, 0, 0, 3, 4, 0], am_desired_position = [0, 0, 0, 3, 4, 0],
          am_self = example_movement_pid,
          am_calls = [(0, 0), (1, 4), (2, 0), (3, -3), (4, 0), (5, 4), (6, 0), (7, -3)]\<rparr>"
  "advance_move example_control_step example_movement_pid
       [0, 0, 0, 0, 0, 0] [40, -50, 0, 0, 0, 25] =
     Inr \<lparr>am_error = [10, -10, 0, 0, 0, 4], am_desired_position = [30, -30, 0, 0, 0, 20],
          am_self = example_movement_pid,
          am_calls = [(0, 16), (1, 0), (2, -12), (3, 0), (4, 8), (5, 0), (6, 28), (7, 0)]\<rparr>"
  by (simp_all add: advance_move_def example_advance_move_errors example_control_step_def
      example_pid_fields example_pid_update example_controlled_thrust)

text \<open>
  C4. The third error returned by \<open>advance_move\<close> is the bounded value of the yaw
  difference \<open>desired - current\<close>, to which 360 is added when it is below -180 and
  from which 360 is subtracted when it is above 180. Before bounding, desired 170 and
  current -170 give -20, and desired -170 and current 170 give 20.
\<close>

theorem advance_move_yaw_error_wrap:
  "(advance_move cs self cur des = Inr r \<longrightarrow>
      am_error r ! 2 =
        bound_error
          (if \<bar>des ! 2 - cur ! 2\<bar> > 180
           then (if des ! 2 - cur ! 2 < 0 then des ! 2 - cur ! 2 + 360
                 else des ! 2 - cur ! 2 - 360)
           else des ! 2 - cur ! 2)
          (yaw_min_error self) (yaw_max_error self))
   \<and> shortest_yaw_error 170 (-170) = -20
   \<and> shortest_yaw_error (-170) 170 = 20"
proof (intro conjI impI)
  assume a: "advance_move cs self cur des = Inr r"
  show "am_error r ! 2 =
        bound_error
          (if \<bar>des ! 2 - cur ! 2\<bar> > 180
           then (if des ! 2 - cur ! 2 < 0 then des ! 2 - cur ! 2 + 360
                 else des ! 2 - cur ! 2 - 360)
           else des ! 2 - cur ! 2)
          (yaw_min_error self) (yaw_max_error self)"
    using advance_move_Inr(2,3) [OF a] advance_move_errors_yaw_xy(1) [of des self cur]
    by (simp add: shortest_yaw_error_def Let_def)
qed (simp_all add: shortest_yaw_error_def)

theorem advance_move_yaw_error_wrap_witness:
  "advance_move example_control_step example_movement_pid
       [0, 0, -170, 0, 0, 0] [0, 0, 170, 0, 0, 0] =
     Inr \<lparr>am_error = [0, 0, -20, 0, 0, 0], am_desired_position = [0, 0, 170, 0, 0, 0],
          am_self = example_movement_pid,
          am_calls = [(0, 0), (1, -20), (2, 0), (3, 0), (4, 0), (5, 20), (6, 0), (7, 0)]\<rparr>
   \<and> bound_error (-20) (yaw_min_error example_movement_pid)
         (yaw_max_error example_movement_pid) = -20"
  using advance_move_yaw_error_wrap [where cs = example_control_step
      and self = example_movement_pid
      and cur = "[0, 0, -170, 0, 0, 0]" and des = "[0, 0, 170, 0, 0, 0]"
      and r = "\<lparr>am_error = [0, 0, -20, 0, 0, 0], am_desired_position = [0, 0, 170, 0, 0, 0],
          am_self = example_movement_pid,
          am_calls = [(0, 0), (1, -20), (2, 0), (3, 0), (4, 0), (5, 20), (6, 0), (7, 0)]\<rparr>"]
  by (simp add: example_advance_move)

lemma advance_move_Inr_ex:
  assumes "6 \<le> length cur" and "6 \<le> length des"
    and "8 \<le> length (thruster_strengths self)"
  shows "\<exists>r. advance_move cs self cur des = Inr r"
  using assms
  by (simp add: advance_move_def controlled_thrust_def length_thrusters Let_def case_prod_beta)

text \<open>
  C5. The fourth and fifth errors returned by \<open>advance_move\<close> are the bounded values of
  the north and east errors rotated by the current yaw, converted by \<open>math.radians\<close>:
  \<open>cos yaw * north + sin yaw * east\<close> and \<open>- sin yaw * north + cos yaw * east\<close>.
  Before bounding, at yaw 0 they are the north and the east error. At yaw 90 degrees
  \<open>math.radians\<close> returns the double nearest to \<open>pi / 2\<close>, whose cosine is not zero: the
  two values are the east error and minus the north error up to an error of at most
  \<open>(|north| + |east|) / 10^15\<close>, not exactly.
\<close>

theorem advance_move_body_frame_rotation:
  "(advance_move cs self cur des = Inr r \<longrightarrow>
      am_error r ! 3 =
        bound_error (cos (radians (cur ! 2)) * (des ! 3 - cur ! 3)
                      + sin (radians (cur ! 2)) * (des ! 4 - cur ! 4))
          (x_min_error self) (x_max_error self)
      \<and> am_error r ! 4 =
        bound_error (- sin (radians (cur ! 2)) * (des ! 3 - cur ! 3)
                      + cos (radians (cur ! 2)) * (des ! 4 - cur ! 4))
          (y_min_error self) (y_max_error self))
   \<and> body_x_error 0 north_error east_error = north_error
   \<and> body_y_error 0 north_error east_error = east_error
   \<and> \<bar>body_x_error 90 north_error east_error - east_error\<bar>
        \<le> (\<bar>north_error\<bar> + \<bar>east_error\<bar>) / 10 ^ 15
   \<and> \<bar>body_y_error 90 north_error east_error - (- north_error)\<bar>
        \<le> (\<bar>north_error\<bar> + \<bar>east_error\<bar>) / 10 ^ 15"
proof (intro conjI impI)
  assume a: "advance_move cs self cur des = Inr r"
  note e = advance_move_Inr(2,3) [OF a] advance_move_errors_yaw_xy(2,3) [of des self cur]
  show "am_error r ! 3 =
        bound_error (cos (radians (cur ! 2)) * (des ! 3 - cur ! 3)
                      + sin (radians (cur ! 2)) * (des ! 4 - cur ! 4))
          (x_min_error self) (x_max_error self)"
    using e by (simp add: body_x_error_def Let_def)
  show "am_error r ! 4 =
        bound_error (- sin (radians (cur ! 2)) * (des ! 3 - cur ! 3)
                      + cos (radians (cur ! 2)) * (des ! 4 - cur ! 4))
          (y_min_error self) (y_max_error self)"
    using e by (simp add: body_y_error_def Let_def)
qed (rule body_error_0 body_error_90)+

theorem advance_move_body_frame_rotation_witness:
  "advance_move example_control_step example_movement_pid
       [0, 0, 0, 0, 0, 0] [0, 0, 0, 3, 4, 0] =
     Inr \<lparr>am_error = [0, 0, 0, 3, 4, 0], am_desired_position = [0, 0, 0, 3, 4, 0],
          am_self = example_movement_pid,
          am_calls = [(0, 0), (1, 4), (2, 0), (3, -3), (4, 0), (5, 4), (6, 0), (7, -3)]\<rparr>
   \<and> bound_error (cos (radians 0) * 3 + sin (radians 0) * 4)
         (x_min_error example_movement_pid) (x_max_error example_movement_pid) = 3
   \<and> bound_error (- sin (radians 0) * 3 + cos (radians 0) * 4)
         (y_min_error example_movement_pid) (y_max_error example_movement_pid) = 4"
  using advance_move_body_frame_rotation [where cs = example_control_step
      and self = example_movement_pid
      and cur = "[0, 0, 0, 0, 0, 0]" and des = "[0, 0, 0, 3, 4, 0]"
      and r = "\<lparr>am_error = [0, 0, 0, 3, 4, 0], am_desired_position = [0, 0, 0, 3, 4, 0],
          am_self = example_movement_pid,
          am_calls = [(0, 0), (1, 4), (2, 0), (3, -3), (4, 0), (5, 4), (6, 0), (7, -3)]\<rparr>"]
  by (simp add: example_advance_move)

text \<open>
  At a current yaw of 90 degrees, with a north error of 5 and an east error of 0, the
  x error is not the east error: it is \<open>5 * cos (radians 90)\<close>, a positive number, and
  \<open>advance_move\<close> returns it as the fourth error.
\<close>

theorem advance_move_body_frame_rotation_counterexample:
  "body_x_error 90 5 0 \<noteq> 0
   \<and> am_error (projr (advance_move example_control_step example_movement_pid
                        [0, 0, 90, 0, 0, 0] [0, 0, 90, 5, 0, 0])) ! 3 \<noteq> 0"
proof -
  have "\<exists>r. advance_move example_control_step example_movement_pid
               [0, 0, 90, 0, 0, 0] [0, 0, 90, 5, 0, 0] = Inr r"
    by (rule advance_move_Inr_ex) (simp_all add: example_movement_pid_def)
  then obtain r where r: "advance_move example_control_step example_movement_pid
               [0, 0, 90, 0, 0, 0] [0, 0, 90, 5, 0, 0] = Inr r" ..
  have "am_error r ! 3 =
          bound_error (body_x_error 90 5 0)
            (x_min_error example_movement_pid) (x_max_error example_movement_pid)"
    using advance_move_Inr(2,3) [OF r]
      advance_move_errors_yaw_xy(2) [of "[0, 0, 90, 5, 0, 0]" example_movement_pid
        "[0, 0, 90, 0, 0, 0]"]
    by simp
  also have "\<dots> = body_x_error 90 5 0"
    using body_x_error_90_5_0 by (simp add: bound_error_def example_movement_pid_def)
  finally show ?thesis
    using body_x_error_90_5_0 by (simp add: r)
qed

text \<open>
  C10. \<open>advance_move\<close> overwrites elements of the list \<open>desired_position\<close> that it is
  given: a roll or pitch whose magnitude exceeds \<open>max_roll\<close> or \<open>max_pitch\<close> becomes
  that maximum with the sign of the old value, a depth below \<open>min_z\<close> becomes \<open>min_z\<close>
  and a depth above \<open>max_z\<close> becomes \<open>max_z\<close>; every other element keeps its value.
  The list is the navigation controller's own \<open>desired_position\<close>, which holds the
  clamped values after a control tick in mode 0 or 3.
\<close>

theorem advance_move_clamps_desired_position_in_place:
  "(advance_move cs self cur des = Inr r \<longrightarrow>
      am_desired_position r =
        des[0 := (if \<bar>des ! 0\<bar> > max_roll self then copysign (max_roll self) (des ! 0)
                  else des ! 0),
            1 := (if \<bar>des ! 1\<bar> > max_pitch self then copysign (max_pitch self) (des ! 1)
                  else des ! 1),
            5 := (if des ! 5 < min_z self then min_z self
                  else if des ! 5 > max_z self then max_z self else des ! 5)])
   \<and> (sub_killed nav \<noteq> 1 \<and> (movement_mode nav = 0 \<or> movement_mode nav = 3)
        \<and> run_tick cs nav = Inr (nav', acts) \<longrightarrow>
      desired_position nav' =
        (desired_position nav)
           [0 := (if \<bar>desired_position nav ! 0\<bar> > max_roll (pid_controller nav)
                  then copysign (max_roll (pid_controller nav)) (desired_position nav ! 0)
                  else desired_position nav ! 0),
            1 := (if \<bar>desired_position nav ! 1\<bar> > max_pitch (pid_controller nav)
                  then copysign (max_pitch (pid_controller nav)) (desired_position nav ! 1)
                  else desired_position nav ! 1),
            5 := (if desired_position nav ! 5 < min_z (pid_controller nav)
                  then min_z (pid_controller nav)
                  else if desired_position nav ! 5 > max_z (pid_controller nav)
                  then max_z (pid_controller nav) else desired_position nav ! 5)])"
proof (intro conjI impI)
  assume a: "advance_move cs self cur des = Inr r"
  show "am_desired_position r =
        des[0 := (if \<bar>des ! 0\<bar> > max_roll self then copysign (max_roll self) (des ! 0)
                  else des ! 0),
            1 := (if \<bar>des ! 1\<bar> > max_pitch self then copysign (max_pitch self) (des ! 1)
                  else des ! 1),
            5 := (if des ! 5 < min_z self then min_z self
                  else if des ! 5 > max_z self then max_z self else des ! 5)]"
    using advance_move_Inr(2,4) [OF a] advance_move_errors_desired [of des self cur]
    by (simp split del: if_split)
next
  assume b: "sub_killed nav \<noteq> 1 \<and> (movement_mode nav = 0 \<or> movement_mode nav = 3)
        \<and> run_tick cs nav = Inr (nav', acts)"
  then obtain r where r: "advance_move cs (pid_controller nav) (current_position nav)
        (desired_position nav) = Inr r"
    and d: "desired_position nav' = am_desired_position r"
    by (auto simp add: run_tick_def split: sum.splits)
  show "desired_position nav' =
        (desired_position nav)
           [0 := (if \<bar>desired_position nav ! 0\<bar> > max_roll (pid_controller nav)
                  then copysign (max_roll (pid_controller nav)) (desired_position nav ! 0)
                  else desired_position nav ! 0),
            1 := (if \<bar>desired_position nav ! 1\<bar> > max_pitch (pid_controller nav)
                  then copysign (max_pitch (pid_controller nav)) (desired_position nav ! 1)
                  else desired_position nav ! 1),
            5 := (if desired_position nav ! 5 < min_z (pid_controller nav)
                  then min_z (pid_controller nav)
                  else if desired_position nav ! 5 > max_z (pid_controller nav)
                  then max_z (pid_controller nav) else desired_position nav ! 5)]"
    using advance_move_Inr(2,4) [OF r]
      advance_move_errors_desired [of "desired_position nav" "pid_controller nav"
        "current_position nav"] d
    by (simp split del: if_split)
qed

lemma example_run_tick:
  "run_tick example_control_step
     (example_navigation_controller\<lparr>sub_killed := 0,
        desired_position := [40, -50, 0, 0, 0, 25]\<rparr>) =
   Inr (example_navigation_controller\<lparr>sub_killed := 0,
          desired_position := [30, -30, 0, 0, 0, 20], pos_error := [10, -10, 0, 0, 0, 4]\<rparr>,
        [Set_Thrust 0 16, Set_Thrust 1 0, Set_Thrust 2 (-12), Set_Thrust 3 0, Set_Thrust 4 8,
         Set_Thrust 5 0, Set_Thrust 6 28, Set_Thrust 7 0])"
  by (simp add: run_tick_def example_navigation_controller_def example_advance_move
      thrust_actions_def)

lemma example_limits:
  "max_roll example_movement_pid = 30" "max_pitch example_movement_pid = 30"
  "min_z example_movement_pid = 0" "max_z example_movement_pid = 20"
  by (simp_all add: example_movement_pid_def)

lemma example_navigation_controller_fields:
  "movement_mode example_navigation_controller = 0"
  "sub_killed example_navigation_controller = 1"
  "pid_controller example_navigation_controller = example_movement_pid"
  "current_position example_navigation_controller = [0, 0, 0, 0, 0, 0]"
  "desired_position example_navigation_controller = [0, 0, 0, 0, 0, 0]"
  "remote_commands example_navigation_controller = example_remote_command"
  by (simp_all add: example_navigation_controller_def)

theorem advance_move_clamps_desired_position_in_place_witness:
  "advance_move example_control_step example_movement_pid
       [0, 0, 0, 0, 0, 0] [40, -50, 0, 0, 0, 25] =
     Inr \<lparr>am_error = [10, -10, 0, 0, 0, 4], am_desired_position = [30, -30, 0, 0, 0, 20],
          am_self = example_movement_pid,
          am_calls = [(0, 16), (1, 0), (2, -12), (3, 0), (4, 8), (5, 0), (6, 28), (7, 0)]\<rparr>
   \<and> sub_killed (example_navigation_controller\<lparr>sub_killed := 0,
          desired_position := [40, -50, 0, 0, 0, 25]\<rparr>) \<noteq> 1
   \<and> movement_mode (example_navigation_controller\<lparr>sub_killed := 0,
          desired_position := [40, -50, 0, 0, 0, 25]\<rparr>) = 0
   \<and> run_tick example_control_step
        (example_navigation_controller\<lparr>sub_killed := 0,
           desired_position := [40, -50, 0, 0, 0, 25]\<rparr>) =
      Inr (example_navigation_controller\<lparr>sub_killed := 0,
             desired_position := [30, -30, 0, 0, 0, 20], pos_error := [10, -10, 0, 0, 0, 4]\<rparr>,
           [Set_Thrust 0 16, Set_Thrust 1 0, Set_Thrust 2 (-12), Set_Thrust 3 0,
            Set_Thrust 4 8, Set_Thrust 5 0, Set_Thrust 6 28, Set_Thrust 7 0])
   \<and> [40, -50, 0, 0, 0, 25]
        [0 := (if \<bar>40\<bar> > max_roll example_movement_pid
               then copysign (max_roll example_movement_pid) 40 else 40),
         1 := (if \<bar>- 50\<bar> > max_pitch example_movement_pid
               then copysign (max_pitch example_movement_pid) (- 50) else - 50),
         5 := (if 25 < min_z example_movement_pid then min_z example_movement_pid
               else if 25 > max_z example_movement_pid then max_z example_movement_pid
               else 25)] = [30, -30, 0, 0, 0, 20::real]"
  using advance_move_clamps_desired_position_in_place
    [where cs = example_control_step and self = example_movement_pid
      and cur = "[0, 0, 0, 0, 0, 0]" and des = "[40, -50, 0, 0, 0, 25]"
      and r = "\<lparr>am_error = [10, -10, 0, 0, 0, 4], am_desired_position = [30, -30, 0, 0, 0, 20],
          am_self = example_movement_pid,
          am_calls = [(0, 16), (1, 0), (2, -12), (3, 0), (4, 8), (5, 0), (6, 28), (7, 0)]\<rparr>"
      and nav = "example_navigation_controller\<lparr>sub_killed := 0,
           desired_position := [40, -50, 0, 0, 0, 25]\<rparr>"
      and nav' = "example_navigation_controller\<lparr>sub_killed := 0,
             desired_position := [30, -30, 0, 0, 0, 20], pos_error := [10, -10, 0, 0, 0, 4]\<rparr>"
      and acts = "[Set_Thrust 0 16, Set_Thrust 1 0, Set_Thrust 2 (-12), Set_Thrust 3 0,
            Set_Thrust 4 8, Set_Thrust 5 0, Set_Thrust 6 28, Set_Thrust 7 0]"]
  by (simp add: example_advance_move example_run_tick example_limits
      example_navigation_controller_fields copysign_def)

subsection \<open>remote\_move\<close>

lemma controlled_thrust_cong:
  assumes "thruster_strengths s' = thruster_strengths s" "z_bias s' = z_bias s"
    "z_active_bias_depth s' = z_active_bias_depth s"
  shows "controlled_thrust s' a b c d e f g = controlled_thrust s a b c d e f g"
proof -
  have "thrust_value s' i t a b c d e f g = thrust_value s i t a b c d e f g" for i t
    unfolding thrust_value_def assms ..
  then show ?thesis
    by (simp add: controlled_thrust_def assms)
qed

lemma remote_depth_error_fields:
  "remote_depth_recorded (fst (remote_depth_error self cur rc)) = rc_hold_depth rc"
  "remote_desired_depth (fst (remote_depth_error self cur rc)) =
     (if rc_hold_depth rc
      then (if remote_depth_recorded self then remote_desired_depth self else cur ! 5)
      else 0)"
  "roll_pid_controller (fst (remote_depth_error self cur rc)) = roll_pid_controller self"
  "pitch_pid_controller (fst (remote_depth_error self cur rc)) = pitch_pid_controller self"
  "yaw_pid_controller (fst (remote_depth_error self cur rc)) = yaw_pid_controller self"
  "x_pid_controller (fst (remote_depth_error self cur rc)) = x_pid_controller self"
  "y_pid_controller (fst (remote_depth_error self cur rc)) = y_pid_controller self"
  "z_pid_controller (fst (remote_depth_error self cur rc)) = z_pid_controller self"
  "thruster_strengths (fst (remote_depth_error self cur rc)) = thruster_strengths self"
  "z_bias (fst (remote_depth_error self cur rc)) = z_bias self"
  "z_active_bias_depth (fst (remote_depth_error self cur rc)) = z_active_bias_depth self"
  by (simp_all add: remote_depth_error_def Let_def)

lemma remote_depth_error_snd:
  "snd (remote_depth_error self cur rc) =
     (if rc_hold_depth rc
      then bound_error (remote_desired_depth (fst (remote_depth_error self cur rc)) - cur ! 5)
             (z_min_error self) (z_max_error self)
      else if rc_depth rc \<le> 0
      then interp (rc_depth rc) (-1, 0) (z_min_error self, 0)
      else interp (rc_depth rc) (0, 1) (0, z_max_error self))"
  by (simp add: remote_depth_error_def Let_def)

lemma sum_case_Inr_pair_iff:
  "((case s of Inl e \<Rightarrow> Inl e | Inr c \<Rightarrow> Inr (x, c)) = Inr (y, d)) = (s = Inr d \<and> x = y)"
  by (cases s) auto

lemma remote_move_Inr:
  assumes "remote_move cs self cur rc = Inr (self', calls)"
  shows "6 \<le> length cur"
    and "self' = (fst (remote_depth_error self cur rc))
           \<lparr>roll_pid_controller :=
              snd (cs (roll_pid_controller self)
                    (bound_error (0 - cur ! 0) (roll_min_error self) (roll_max_error self))),
            pitch_pid_controller :=
              snd (cs (pitch_pid_controller self)
                    (bound_error (0 - cur ! 1) (pitch_min_error self) (pitch_max_error self))),
            z_pid_controller :=
              snd (cs (z_pid_controller self) (snd (remote_depth_error self cur rc)))\<rparr>"
    and "controlled_thrust self
           (fst (cs (roll_pid_controller self)
                  (bound_error (0 - cur ! 0) (roll_min_error self) (roll_max_error self))))
           (fst (cs (pitch_pid_controller self)
                  (bound_error (0 - cur ! 1) (pitch_min_error self) (pitch_max_error self))))
           (interp (rc_yaw rc) (-1, 1) (remote_yaw_min_thrust self, remote_yaw_max_thrust self))
           (- interp (rc_x rc) (-1, 1) (remote_x_min_thrust self, remote_x_max_thrust self))
           (interp (rc_y rc) (-1, 1) (remote_y_min_thrust self, remote_y_max_thrust self))
           (fst (cs (z_pid_controller self) (snd (remote_depth_error self cur rc))))
           (cur ! 5) = Inr calls"
proof -
  show len: "6 \<le> length cur"
    using assms by (simp add: remote_move_def split: if_splits)
  have *: "remote_move cs self cur rc = Inr (self', calls)"
    by (rule assms)
  show "self' = (fst (remote_depth_error self cur rc))
           \<lparr>roll_pid_controller :=
              snd (cs (roll_pid_controller self)
                    (bound_error (0 - cur ! 0) (roll_min_error self) (roll_max_error self))),
            pitch_pid_controller :=
              snd (cs (pitch_pid_controller self)
                    (bound_error (0 - cur ! 1) (pitch_min_error self) (pitch_max_error self))),
            z_pid_controller :=
              snd (cs (z_pid_controller self) (snd (remote_depth_error self cur rc)))\<rparr>"
    using * len
    by (simp add: remote_move_def Let_def case_prod_beta sum_case_Inr_pair_iff
        remote_depth_error_fields)
  have "controlled_thrust self'
           (fst (cs (roll_pid_controller self)
                  (bound_error (0 - cur ! 0) (roll_min_error self) (roll_max_error self))))
           (fst (cs (pitch_pid_controller self)
                  (bound_error (0 - cur ! 1) (pitch_min_error self) (pitch_max_error self))))
           (interp (rc_yaw rc) (-1, 1) (remote_yaw_min_thrust self, remote_yaw_max_thrust self))
           (- interp (rc_x rc) (-1, 1) (remote_x_min_thrust self, remote_x_max_thrust self))
           (interp (rc_y rc) (-1, 1) (remote_y_min_thrust self, remote_y_max_thrust self))
           (fst (cs (z_pid_controller self) (snd (remote_depth_error self cur rc))))
           (cur ! 5) = Inr calls"
    using * len
    by (auto simp add: remote_move_def Let_def case_prod_beta sum_case_Inr_pair_iff
        remote_depth_error_fields)
  moreover have "thruster_strengths self' = thruster_strengths self"
    "z_bias self' = z_bias self" "z_active_bias_depth self' = z_active_bias_depth self"
    using * len
    by (auto simp add: remote_move_def Let_def case_prod_beta sum_case_Inr_pair_iff
        remote_depth_error_fields)
  ultimately show "controlled_thrust self
           (fst (cs (roll_pid_controller self)
                  (bound_error (0 - cur ! 0) (roll_min_error self) (roll_max_error self))))
           (fst (cs (pitch_pid_controller self)
                  (bound_error (0 - cur ! 1) (pitch_min_error self) (pitch_max_error self))))
           (interp (rc_yaw rc) (-1, 1) (remote_yaw_min_thrust self, remote_yaw_max_thrust self))
           (- interp (rc_x rc) (-1, 1) (remote_x_min_thrust self, remote_x_max_thrust self))
           (interp (rc_y rc) (-1, 1) (remote_y_min_thrust self, remote_y_max_thrust self))
           (fst (cs (z_pid_controller self) (snd (remote_depth_error self cur rc))))
           (cur ! 5) = Inr calls"
    by (simp only: controlled_thrust_cong [of self' self])
qed

lemma remote_move_latch:
  assumes "remote_move cs self cur rc = Inr (self', calls)"
  shows "remote_depth_recorded self' = rc_hold_depth rc"
    and "remote_desired_depth self' =
           (if rc_hold_depth rc
            then (if remote_depth_recorded self then remote_desired_depth self else cur ! 5)
            else 0)"
  by (simp_all add: remote_move_Inr(2) [OF assms] remote_depth_error_fields)

lemma remote_move_pids:
  assumes "remote_move cs self cur rc = Inr (self', calls)"
  shows "roll_pid_controller self' =
           snd (cs (roll_pid_controller self)
                  (bound_error (0 - cur ! 0) (roll_min_error self) (roll_max_error self)))"
    and "pitch_pid_controller self' =
           snd (cs (pitch_pid_controller self)
                  (bound_error (0 - cur ! 1) (pitch_min_error self) (pitch_max_error self)))"
    and "z_pid_controller self' =
           snd (cs (z_pid_controller self) (snd (remote_depth_error self cur rc)))"
    and "yaw_pid_controller self' = yaw_pid_controller self"
    and "x_pid_controller self' = x_pid_controller self"
    and "y_pid_controller self' = y_pid_controller self"
  by (simp_all add: remote_move_Inr(2) [OF assms] remote_depth_error_fields)

lemma remote_moves_held:
  assumes "remote_depth_recorded s" and "\<forall>(c, r) \<in> set held. rc_hold_depth r"
    and "remote_moves cs s held = Inr s'"
  shows "remote_depth_recorded s' \<and> remote_desired_depth s' = remote_desired_depth s"
  using assms
proof (induction held arbitrary: s)
  case Nil
  then show ?case by simp
next
  case (Cons a held)
  obtain c r where a: "a = (c, r)" by (cases a)
  from Cons.prems(3) a obtain s1 k where
    step: "remote_move cs s c r = Inr (s1, k)" and rest: "remote_moves cs s1 held = Inr s'"
    by (auto split: sum.splits)
  from Cons.prems(2) a have hold: "rc_hold_depth r" and held: "\<forall>(c, r) \<in> set held. rc_hold_depth r"
    by auto
  from remote_move_latch [OF step] hold Cons.prems(1)
  have s1: "remote_depth_recorded s1" "remote_desired_depth s1 = remote_desired_depth s"
    by simp_all
  from Cons.IH [OF s1(1) held rest] s1(2) show ?case by simp
qed

lemma example_remote_move_hold:
  "remote_move example_control_step example_movement_pid [0, 0, 0, 0, 0, 12]
       (example_remote_command\<lparr>rc_hold_depth := True\<rparr>) =
     Inr (example_movement_pid\<lparr>remote_desired_depth := 12, remote_depth_recorded := True\<rparr>,
          [(0, 5), (1, 0), (2, 5), (3, 0), (4, 5), (5, 0), (6, 5), (7, 0)])"
  "remote_move example_control_step
       (example_movement_pid\<lparr>remote_desired_depth := 12, remote_depth_recorded := True\<rparr>)
       [0, 0, 0, 0, 0, 15] (example_remote_command\<lparr>rc_hold_depth := True\<rparr>) =
     Inr (example_movement_pid\<lparr>remote_desired_depth := 12, remote_depth_recorded := True\<rparr>,
          [(0, -3), (1, 0), (2, 1), (3, 0), (4, 1), (5, 0), (6, 1), (7, 0)])"
  "remote_move example_control_step
       (example_movement_pid\<lparr>remote_desired_depth := 12, remote_depth_recorded := True\<rparr>)
       [0, 0, 0, 0, 0, 9] (example_remote_command\<lparr>rc_hold_depth := True\<rparr>) =
     Inr (example_movement_pid\<lparr>remote_desired_depth := 12, remote_depth_recorded := True\<rparr>,
          [(0, 12), (1, 0), (2, 6), (3, 0), (4, 6), (5, 0), (6, 6), (7, 0)])"
  "remote_move example_control_step
       (example_movement_pid\<lparr>remote_desired_depth := 12, remote_depth_recorded := True\<rparr>)
       [0, 0, 0, 0, 0, 7] example_remote_command =
     Inr (example_movement_pid,
          [(0, 0), (1, 0), (2, 0), (3, 0), (4, 0), (5, 0), (6, 0), (7, 0)])"
  "remote_move example_control_step example_movement_pid [0, 0, 0, 0, 0, 5]
       (example_remote_command\<lparr>rc_hold_depth := True\<rparr>) =
     Inr (example_movement_pid\<lparr>remote_desired_depth := 5, remote_depth_recorded := True\<rparr>,
          [(0, 0), (1, 0), (2, 0), (3, 0), (4, 0), (5, 0), (6, 0), (7, 0)])"
  by (simp_all add: remote_move_def remote_depth_error_def example_movement_pid_def
      example_remote_command_def example_control_step_def bound_error_def interp_def
      controlled_thrust_def enumerate_thrusters length_thrusters thrusters_def thrust_value_def
      base_thrust_def Thruster_def vec_def)

lemma example_remote_move_drive:
  "remote_move example_control_step example_movement_pid [2, -4, 0, 0, 0, 3]
       \<lparr>rc_yaw = 1 / 2, rc_x = 1, rc_y = -1, rc_depth = 1 / 2, rc_hold_depth = False,
        rc_record_waypoint = False, rc_zero_position = False\<rparr> =
     Inr (example_movement_pid,
          [(0, 12), (1, -20), (2, 10), (3, 30), (4, 2), (5, -40), (6, -2), (7, 30)])"
  by (simp add: remote_move_def remote_depth_error_def example_movement_pid_def
      example_control_step_def bound_error_def interp_def
      controlled_thrust_def enumerate_thrusters length_thrusters thrusters_def thrust_value_def
      base_thrust_def Thruster_def vec_def)

text \<open>
  C7. In \<open>remote_move\<close> the roll and pitch errors are the bounded values of
  \<open>0 - current\<close>, and only the roll, pitch and depth controllers make a control step:
  the yaw, x and y controllers are left as they were. The yaw, x and y controls handed to
  \<open>controlled_thrust\<close> are the interpolations of the joystick axes from \<open>[-1, 1]\<close> to
  the configured thrust ranges (linear on \<open>[-1, 1]\<close>), the x control negated.
\<close>

theorem remote_move_controls:
  assumes "remote_move cs self cur rc = Inr (self', calls)"
  shows "roll_pid_controller self' =
           snd (cs (roll_pid_controller self)
                  (bound_error (0 - cur ! 0) (roll_min_error self) (roll_max_error self)))
       \<and> pitch_pid_controller self' =
           snd (cs (pitch_pid_controller self)
                  (bound_error (0 - cur ! 1) (pitch_min_error self) (pitch_max_error self)))
       \<and> z_pid_controller self' =
           snd (cs (z_pid_controller self) (snd (remote_depth_error self cur rc)))
       \<and> yaw_pid_controller self' = yaw_pid_controller self
       \<and> x_pid_controller self' = x_pid_controller self
       \<and> y_pid_controller self' = y_pid_controller self
       \<and> controlled_thrust self
           (fst (cs (roll_pid_controller self)
                  (bound_error (0 - cur ! 0) (roll_min_error self) (roll_max_error self))))
           (fst (cs (pitch_pid_controller self)
                  (bound_error (0 - cur ! 1) (pitch_min_error self) (pitch_max_error self))))
           (interp (rc_yaw rc) (-1, 1) (remote_yaw_min_thrust self, remote_yaw_max_thrust self))
           (- interp (rc_x rc) (-1, 1) (remote_x_min_thrust self, remote_x_max_thrust self))
           (interp (rc_y rc) (-1, 1) (remote_y_min_thrust self, remote_y_max_thrust self))
           (fst (cs (z_pid_controller self) (snd (remote_depth_error self cur rc))))
           (cur ! 5) = Inr calls
       \<and> (- 1 \<le> axis \<and> axis \<le> 1 \<longrightarrow>
            interp axis (-1, 1) (lo, hi) = lo + (axis + 1) / 2 * (hi - lo))"
  using remote_move_pids [OF assms] remote_move_Inr(3) [OF assms]
  by (auto simp add: interp_def field_simps)

theorem remote_move_controls_witness:
  "remote_move example_control_step example_movement_pid [2, -4, 0, 0, 0, 3]
       \<lparr>rc_yaw = 1 / 2, rc_x = 1, rc_y = -1, rc_depth = 1 / 2, rc_hold_depth = False,
        rc_record_waypoint = False, rc_zero_position = False\<rparr> =
     Inr (example_movement_pid,
          [(0, 12), (1, -20), (2, 10), (3, 30), (4, 2), (5, -40), (6, -2), (7, 30)])
   \<and> - 1 \<le> (1 / 2 :: real) \<and> (1 / 2 :: real) \<le> 1
   \<and> interp (1 / 2) (-1, 1) (-20, 20) = 10"
  using remote_move_controls [OF example_remote_move_drive, where axis = "1 / 2"
      and lo = "-20" and hi = 20]
  by (simp add: example_remote_move_drive)

text \<open>
  C6. Starting with the latch clear, the first call of \<open>remote_move\<close> that sees
  \<open>hold_depth\<close> set records the current depth as desired depth; further calls with the
  flag set, whatever their current depths are, keep that value, and their depth error is
  the bounded difference between it and the current depth. A call that sees the flag
  unset clears the latch, and the next call with the flag set records the depth current
  at that call.
\<close>

theorem remote_move_depth_hold_latch:
  assumes "remote_depth_recorded s0 = False"
    and "rc_hold_depth r1" and "remote_move cs s0 p1 r1 = Inr (s1, k1)"
    and "\<forall>(c, r) \<in> set held. rc_hold_depth r" and "remote_moves cs s1 held = Inr s2"
    and "rc_hold_depth r2" and "remote_move cs s2 p2 r2 = Inr (s3, k3)"
    and "\<not> rc_hold_depth r4" and "remote_move cs s3 p4 r4 = Inr (s4, k4)"
    and "rc_hold_depth r5" and "remote_move cs s4 p5 r5 = Inr (s5, k5)"
  shows "remote_depth_recorded s1 \<and> remote_desired_depth s1 = p1 ! 5
       \<and> remote_depth_recorded s2 \<and> remote_desired_depth s2 = p1 ! 5
       \<and> remote_depth_recorded s3 \<and> remote_desired_depth s3 = p1 ! 5
       \<and> snd (remote_depth_error s2 p2 r2) =
            bound_error (p1 ! 5 - p2 ! 5) (z_min_error s2) (z_max_error s2)
       \<and> z_pid_controller s3 =
            snd (cs (z_pid_controller s2)
                   (bound_error (p1 ! 5 - p2 ! 5) (z_min_error s2) (z_max_error s2)))
       \<and> \<not> remote_depth_recorded s4
       \<and> remote_depth_recorded s5 \<and> remote_desired_depth s5 = p5 ! 5"
proof -
  have s1: "remote_depth_recorded s1" "remote_desired_depth s1 = p1 ! 5"
    using remote_move_latch [OF assms(3)] assms(1,2) by simp_all
  have s2: "remote_depth_recorded s2" "remote_desired_depth s2 = p1 ! 5"
    using remote_moves_held [OF s1(1) assms(4,5)] s1(2) by simp_all
  have s3: "remote_depth_recorded s3" "remote_desired_depth s3 = p1 ! 5"
    using remote_move_latch [OF assms(7)] assms(6) s2 by simp_all
  have e: "snd (remote_depth_error s2 p2 r2) =
            bound_error (p1 ! 5 - p2 ! 5) (z_min_error s2) (z_max_error s2)"
    using assms(6) s2 by (simp add: remote_depth_error_snd remote_depth_error_fields)
  have z: "z_pid_controller s3 =
            snd (cs (z_pid_controller s2)
                   (bound_error (p1 ! 5 - p2 ! 5) (z_min_error s2) (z_max_error s2)))"
    using remote_move_pids(3) [OF assms(7)] e by simp
  have s4: "\<not> remote_depth_recorded s4"
    using remote_move_latch(1) [OF assms(9)] assms(8) by simp
  have s5: "remote_depth_recorded s5" "remote_desired_depth s5 = p5 ! 5"
    using remote_move_latch [OF assms(11)] assms(10) s4 by simp_all
  from s1 s2 s3 e z s4 s5 show ?thesis by simp
qed

theorem remote_move_depth_hold_latch_witness:
  "remote_depth_recorded example_movement_pid = False
   \<and> rc_hold_depth (example_remote_command\<lparr>rc_hold_depth := True\<rparr>)
   \<and> \<not> rc_hold_depth example_remote_command
   \<and> remote_move example_control_step example_movement_pid [0, 0, 0, 0, 0, 12]
         (example_remote_command\<lparr>rc_hold_depth := True\<rparr>) =
       Inr (example_movement_pid\<lparr>remote_desired_depth := 12, remote_depth_recorded := True\<rparr>,
            [(0, 5), (1, 0), (2, 5), (3, 0), (4, 5), (5, 0), (6, 5), (7, 0)])
   \<and> remote_moves example_control_step
         (example_movement_pid\<lparr>remote_desired_depth := 12, remote_depth_recorded := True\<rparr>)
         [([0, 0, 0, 0, 0, 15], example_remote_command\<lparr>rc_hold_depth := True\<rparr>)] =
       Inr (example_movement_pid\<lparr>remote_desired_depth := 12, remote_depth_recorded := True\<rparr>)
   \<and> remote_move example_control_step
         (example_movement_pid\<lparr>remote_desired_depth := 12, remote_depth_recorded := True\<rparr>)
         [0, 0, 0, 0, 0, 9] (example_remote_command\<lparr>rc_hold_depth := True\<rparr>) =
       Inr (example_movement_pid\<lparr>remote_desired_depth := 12, remote_depth_recorded := True\<rparr>,
            [(0, 12), (1, 0), (2, 6), (3, 0), (4, 6), (5, 0), (6, 6), (7, 0)])
   \<and> remote_move example_control_step
         (example_movement_pid\<lparr>remote_desired_depth := 12, remote_depth_recorded := True\<rparr>)
         [0, 0, 0, 0, 0, 7] example_remote_command =
       Inr (example_movement_pid,
            [(0, 0), (1, 0), (2, 0), (3, 0), (4, 0), (5, 0), (6, 0), (7, 0)])
   \<and> remote_move example_control_step example_movement_pid [0, 0, 0, 0, 0, 5]
         (example_remote_command\<lparr>rc_hold_depth := True\<rparr>) =
       Inr (example_movement_pid\<lparr>remote_desired_depth := 5, remote_depth_recorded := True\<rparr>,
            [(0, 0), (1, 0), (2, 0), (3, 0), (4, 0), (5, 0), (6, 0), (7, 0)])
   \<and> remote_desired_depth
         (example_movement_pid\<lparr>remote_desired_depth := 12, remote_depth_recorded := True\<rparr>)
       = [0, 0, 0, 0, 0, 12] ! 5
   \<and> remote_desired_depth
         (example_movement_pid\<lparr>remote_desired_depth := 5, remote_depth_recorded := True\<rparr>)
       = [0, 0, 0, 0, 0, 5] ! 5"
proof -
  have h1: "remote_depth_recorded example_movement_pid = False"
    by (simp add: example_movement_pid_def)
  have h2: "rc_hold_depth (example_remote_command\<lparr>rc_hold_depth := True\<rparr>)"
    by simp
  have h3: "\<not> rc_hold_depth example_remote_command"
    by (simp add: example_remote_command_def)
  have h4: "\<forall>(c, r) \<in> set [([0, 0, 0, 0, 0, 15::real],
                example_remote_command\<lparr>rc_hold_depth := True\<rparr>)]. rc_hold_depth r"
    by simp
  have h5: "remote_moves example_control_step
         (example_movement_pid\<lparr>remote_desired_depth := 12, remote_depth_recorded := True\<rparr>)
         [([0, 0, 0, 0, 0, 15], example_remote_command\<lparr>rc_hold_depth := True\<rparr>)] =
       Inr (example_movement_pid\<lparr>remote_desired_depth := 12, remote_depth_recorded := True\<rparr>)"
    by (simp add: example_remote_move_hold(2))
  from remote_move_depth_hold_latch [OF h1 h2 example_remote_move_hold(1) h4 h5 h2
      example_remote_move_hold(3) h3 example_remote_move_hold(4) h2 example_remote_move_hold(5)]
    h1 h2 h3 h5 example_remote_move_hold
  show ?thesis by simp
qed

subsection \<open>Navigation controller\<close>






lemma run_tick_killed:
  assumes "sub_killed s = 1"
  shows "run_tick cs s =
     Inr (s, [Set_Thrust 0 0, Set_Thrust 1 0, Set_Thrust 2 0, Set_Thrust 3 0,
              Set_Thrust 4 0, Set_Thrust 5 0, Set_Thrust 6 0, Set_Thrust 7 0])"
  using assms
  by (simp add: run_tick_def simple_thrust_def length_thrusters thrust_actions_def)





text \<open>
  C1. With the kill flag set a control tick commands zero to all eight thrusters,
  whatever the mode, the remote commands and the desired position are
  (\<open>run_tick_killed\<close>). The thruster test callback does not look at the kill flag:
  after a kill message and a control tick, a \<open>THRUSTS\<close> message with 50 for the first
  thruster is written to the thrusters as it is, so a killed sub receives a nonzero
  thrust command.
\<close>

theorem thruster_test_commands_reach_killed_thrusters:
  "steps cs s [KILL_SUB True, Control_Tick, THRUSTS [50, 0, 0, 0, 0, 0, 0, 0]] =
     Inr (s\<lparr>sub_killed := 1\<rparr>,
          [Set_Thrust 0 0, Set_Thrust 1 0, Set_Thrust 2 0, Set_Thrust 3 0,
           Set_Thrust 4 0, Set_Thrust 5 0, Set_Thrust 6 0, Set_Thrust 7 0,
           Set_Thrust 0 50, Set_Thrust 1 0, Set_Thrust 2 0, Set_Thrust 3 0,
           Set_Thrust 4 0, Set_Thrust 5 0, Set_Thrust 6 0, Set_Thrust 7 0])"
  by (simp add: update_sub_killed_state_def run_tick_killed update_thruster_test_callback_def
      simple_thrust_def length_thrusters thrust_actions_def)

end
